theory Spec2Isabelle
  imports Complex_Main "HOL-Library.AList"
begin

section \<open>Python values used by \<open>zerox\<close>\<close>

text \<open>
  A Python \<open>str\<close> is a list of code points; the model covers the code points below 256
  (ASCII and Latin-1), which is what \<^typ>\<open>char\<close> holds. An \<open>Optional[str]\<close> is a
  \<^typ>\<open>string option\<close>. Python integers are \<^typ>\<open>int\<close>.
\<close>

text \<open>Truthiness of an \<open>Optional[str]\<close>: \<open>None\<close> and the empty string are falsy.\<close>

fun truthy :: "string option \<Rightarrow> bool" where
  "truthy None = False"
| "truthy (Some s) = (s \<noteq> [])"

text \<open>
  \<open>str.isalnum\<close> on one character: letters, decimal digits and the other numeric
  characters. Below 256 these are the ASCII digits and letters, the ordinal
  indicators 170 and 186, the micro sign 181, the superscript digits 178, 179, 185, the
  vulgar fractions 188 to 190 and the Latin-1 letters 192 to 255 without the
  multiplication sign 215 and the division sign 247.
\<close>

definition isalnum :: "char \<Rightarrow> bool" where
  "isalnum c =
     (let n = (of_char c :: nat) in
        (48 \<le> n \<and> n \<le> 57) \<or> (65 \<le> n \<and> n \<le> 90) \<or> (97 \<le> n \<and> n \<le> 122)
        \<or> n = 170 \<or> n = 178 \<or> n = 179 \<or> n = 181 \<or> n = 185 \<or> n = 186
        \<or> (188 \<le> n \<and> n \<le> 190)
        \<or> (192 \<le> n \<and> n \<le> 214) \<or> (216 \<le> n \<and> n \<le> 246) \<or> (248 \<le> n \<and> n \<le> 255))"

text \<open>
  \<open>str.lower\<close> on one character: the upper-case letters A to Z and the Latin-1
  capitals 192 to 222 (without 215) move up by 32, every other character below 256
  is its own lower case. \<open>has_lower\<close> holds of the code points that move.
\<close>

definition has_lower :: "nat \<Rightarrow> bool" where
  "has_lower n = ((65 \<le> n \<and> n \<le> 90) \<or> (192 \<le> n \<and> n \<le> 214) \<or> (216 \<le> n \<and> n \<le> 222))"

definition lower :: "char \<Rightarrow> char" where
  "lower c = (if has_lower (of_char c) then char_of ((of_char c :: nat) + 32) else c)"

text \<open>\<open>str.endswith\<close> and \<open>str.startswith\<close>.\<close>

definition endswith :: "string \<Rightarrow> string \<Rightarrow> bool" where
  "endswith s suf = (length suf \<le> length s \<and> drop (length s - length suf) s = suf)"

definition startswith :: "string \<Rightarrow> string \<Rightarrow> bool" where
  "startswith s pre = (take (length pre) s = pre)"

text \<open>\<open>sep.join(xs)\<close>.\<close>

fun join :: "string \<Rightarrow> string list \<Rightarrow> string" where
  "join sep [] = []"
| "join sep [x] = x"
| "join sep (x # y # ys) = x @ sep @ join sep (y # ys)"

text \<open>\<open>str.rfind\<close> of one character: the last index where it occurs, \<open>-1\<close> when absent.\<close>

definition rfind :: "string \<Rightarrow> char \<Rightarrow> int" where
  "rfind p c =
     (if c \<in> set p
      then int (length p) - 1 - int (length (takeWhile (\<lambda>x. x \<noteq> c) (rev p)))
      else - 1)"

subsection \<open>\<open>os.path\<close> on POSIX\<close>

text \<open>\<open>os.path.join(a, b)\<close>: an absolute \<open>b\<close> replaces \<open>a\<close>; otherwise one separator
  is put between the two unless \<open>a\<close> is empty or already ends with it.\<close>

definition path_join :: "string \<Rightarrow> string \<Rightarrow> string" where
  "path_join a b =
     (if startswith b ''/'' then b
      else if a = [] \<or> endswith a ''/'' then a @ b
      else a @ ''/'' @ b)"

text \<open>\<open>os.path.basename(p)\<close>: what follows the last separator.\<close>

definition basename :: "string \<Rightarrow> string" where
  "basename p = drop (nat (rfind p CHR ''/'' + 1)) p"

text \<open>
  \<open>os.path.splitext(p)\<close>: the split is at the last dot when that dot lies after the last
  separator and some character between the separator and the dot is not a dot (leading
  dots of the file name do not start an extension); otherwise the extension is empty.
\<close>

definition splitext :: "string \<Rightarrow> string \<times> string" where
  "splitext p =
     (let sepIndex = rfind p CHR ''/'';
          dotIndex = rfind p CHR ''.''
      in if dotIndex > sepIndex
            \<and> list_ex (\<lambda>x. x \<noteq> CHR ''.'')
                 (take (nat (dotIndex - (sepIndex + 1))) (drop (nat (sepIndex + 1)) p))
         then (take (nat dotIndex) p, drop (nat dotIndex) p)
         else (p, []))"

section \<open>Errors and the file system\<close>

text \<open>
  \<open>FileUnavailable\<close> is the exception \<open>zerox\<close> raises itself. The others are the
  exceptions of the library calls it makes; \<open>ExternalError\<close> stands for whatever a
  collaborator (download, rasterization, the model constructor, the batch scheduler) raises.
\<close>

datatype error =
    FileUnavailable
  | FileExistsError
  | FileNotFoundError
  | NotADirectoryError
  | IsADirectoryError
  | ExternalError string

text \<open>
  The file system is the list of its entries, each a path with a directory or a file's
  text. The order of the list is the order in which the operating system enumerates
  entries. Paths are compared as strings; intermediate directories of a path are not
  tracked.
\<close>

datatype node = Dir | File string

type_synonym filesystem = "(string \<times> node) list"

type_synonym 'a io = "filesystem \<Rightarrow> (error + 'a) \<times> filesystem"

text \<open>Sequencing of two effects; an exception ends the run with the state reached.\<close>

definition and_then :: "'a io \<Rightarrow> ('a \<Rightarrow> 'b io) \<Rightarrow> 'b io" where
  "and_then m f s = (case m s of (Inl e, s') \<Rightarrow> (Inl e, s') | (Inr a, s') \<Rightarrow> f a s')"

definition return_io :: "'a \<Rightarrow> 'a io" where
  "return_io a s = (Inr a, s)"

definition raise :: "error \<Rightarrow> 'a io" where
  "raise e s = (Inl e, s)"

text \<open>\<open>os.path.exists(p)\<close>.\<close>

definition path_exists :: "filesystem \<Rightarrow> string \<Rightarrow> bool" where
  "path_exists s p = (map_of s p \<noteq> None)"

text \<open>\<open>makedirs(p, exist_ok=True)\<close>: nothing to do when the directory exists, an
  error when a file has this path.\<close>

definition makedirs :: "string \<Rightarrow> unit io" where
  "makedirs p s =
     (case map_of s p of
        Some Dir \<Rightarrow> (Inr (), s)
      | Some (File _) \<Rightarrow> (Inl FileExistsError, s)
      | None \<Rightarrow> (Inr (), s @ [(p, Dir)]))"

text \<open>The entries below directory \<open>d\<close> at any depth.\<close>

definition below :: "string \<Rightarrow> string \<Rightarrow> bool" where
  "below d p = (startswith p (d @ ''/'') \<and> length d + 1 < length p)"


text \<open>\<open>listdir(d)\<close>: the names of the direct children of \<open>d\<close>, in enumeration order.\<close>

definition listdir :: "string \<Rightarrow> string list io" where
  "listdir d s =
     (case map_of s d of
        None \<Rightarrow> (Inl FileNotFoundError, s)
      | Some (File _) \<Rightarrow> (Inl NotADirectoryError, s)
      | Some Dir \<Rightarrow>
          (Inr (filter (\<lambda>n. CHR ''/'' \<notin> set n)
                  (map (\<lambda>e. drop (length d + 1) (fst e)) (filter (\<lambda>e. below d (fst e)) s))),
           s))"

text \<open>\<open>open(p, "w")\<close> followed by \<open>write(text)\<close>: the file is created or truncated,
  so its content afterwards is exactly \<open>text\<close>.\<close>

definition write_text :: "string \<Rightarrow> string \<Rightarrow> unit io" where
  "write_text p txt s =
     (case map_of s p of
        Some Dir \<Rightarrow> (Inl IsADirectoryError, s)
      | _ \<Rightarrow> (Inr (), AList.update p (File txt) s))"

text \<open>\<open>shutil.rmtree(d)\<close>: removes \<open>d\<close> and everything below it.\<close>

definition rmtree :: "string \<Rightarrow> unit io" where
  "rmtree d s =
     (case map_of s d of
        None \<Rightarrow> (Inl FileNotFoundError, s)
      | Some (File _) \<Rightarrow> (Inl NotADirectoryError, s)
      | Some Dir \<Rightarrow> (Inr (), filter (\<lambda>e. fst e \<noteq> d \<and> \<not> below d (fst e)) s))"

section \<open>The data of \<open>zerox\<close>\<close>

record Page =
  content :: string
  page :: int
  content_length :: int

record ZeroxOutput =
  completion_time :: real
  file_name :: string
  input_tokens :: int
  output_tokens :: int
  pages :: "Page list"

text \<open>The model adapter: the model identifier, the system prompt and the
  keyword arguments passed through to the provider.\<close>

record vision_model =
  model_id :: string
  system_prompt :: string
  provider_kwargs :: "(string \<times> string) list"

text \<open>The tuple a page processing call returns: the page's Markdown (or no string),
  the input and output token counts, and the prior-page context.\<close>

type_synonym page_tuple = "string option \<times> int \<times> int \<times> string"

text \<open>The parameters of \<open>zerox\<close>.\<close>

record zerox_args =
  cleanup :: bool
  concurrency :: int
  file_path :: "string option"
  maintain_format :: bool
  model :: string
  output_dir :: "string option"
  temp_dir :: string
  custom_system_prompt :: "string option"
  kwargs :: "(string \<times> string) list"

text \<open>
  What \<open>zerox\<close> imports and calls: the system's temporary directory, the two clock
  readings (microseconds), and the collaborators \<open>download_file\<close>,
  \<open>convert_pdf_to_images\<close>, \<open>litellmmodel\<close>, \<open>process_page\<close> and
  \<open>process_pages_in_batches\<close>, whose code is outside this module. The vision model
  is an argument of both processing functions, as in the source. The download and the
  rasterization act on the file system and may raise; the model constructor and the batch
  call may raise; a page processing call returns its tuple and leaves the file system
  alone. The result of \<open>convert_pdf_to_images\<close> is the list of the page-image files it
  wrote, the first page first; \<open>zerox\<close> does not use it (line 85).
\<close>

record externals =
  gettempdir :: string
  start_time :: int
  end_time :: int
  download_file :: "string \<Rightarrow> string \<Rightarrow> string option io"
  convert_pdf_to_images :: "string \<Rightarrow> string \<Rightarrow> string list io"
  litellmmodel :: "string \<Rightarrow> (string \<times> string) list \<Rightarrow> error + vision_model"
  process_page ::
    "string \<Rightarrow> vision_model \<Rightarrow> string \<Rightarrow> int \<Rightarrow> int \<Rightarrow> string \<Rightarrow> page_tuple"
  process_pages_in_batches ::
    "string list \<Rightarrow> int \<Rightarrow> vision_model \<Rightarrow> string \<Rightarrow> int \<Rightarrow> int \<Rightarrow> string
       \<Rightarrow> error + page_tuple list"

text \<open>The local variables the page loop updates (lines 58 to 61).\<close>

record page_state =
  input_token_count :: int
  output_token_count :: int
  prior_page :: string
  aggregated_markdown :: "string list"

definition initial_state :: page_state where
  "initial_state =
     \<lparr>input_token_count = 0, output_token_count = 0, prior_page = [],
      aggregated_markdown = []\<rparr>"

section \<open>\<open>zerox\<close>, stage by stage\<close>

text \<open>Lines 68 to 74: the output directory, when configured, and the working
  temporary directory are created; the result is the temporary directory's path.\<close>

definition temp_directory_of :: "zerox_args \<Rightarrow> externals \<Rightarrow> string" where
  "temp_directory_of args ext =
     path_join (if temp_dir args \<noteq> [] then temp_dir args else gettempdir ext) ''zerox-temp''"

definition make_directories :: "zerox_args \<Rightarrow> externals \<Rightarrow> string io" where
  "make_directories args ext =
     and_then
       (case output_dir args of
          None \<Rightarrow> return_io ()
        | Some od \<Rightarrow> if od \<noteq> [] then makedirs od else return_io ())
       (\<lambda>_. and_then (makedirs (temp_directory_of args ext))
          (\<lambda>_. return_io (temp_directory_of args ext)))"

text \<open>Lines 76 to 79: the download, and the second \<open>FileUnavailable\<close>.\<close>

definition resolve_input :: "externals \<Rightarrow> string \<Rightarrow> string \<Rightarrow> string io" where
  "resolve_input ext fp temp_directory =
     and_then (download_file ext fp temp_directory)
       (\<lambda>local_path.
          case local_path of
            None \<Rightarrow> raise FileUnavailable
          | Some lp \<Rightarrow> if lp = [] then raise FileUnavailable else return_io lp)"

text \<open>Lines 81 and 82: the sanitized document name.\<close>

definition sanitize_char :: "char \<Rightarrow> char" where
  "sanitize_char c = (if isalnum c then lower c else CHR ''_'')"

definition sanitized_name :: "string \<Rightarrow> string" where
  "sanitized_name local_path = map sanitize_char (fst (splitext (basename local_path)))"

text \<open>Lines 84 to 92: rasterization, whose result is dropped, then the \<open>.png\<close> entries
  of the temporary directory in enumeration order.\<close>

definition list_images :: "string \<Rightarrow> string list io" where
  "list_images temp_directory =
     and_then (listdir temp_directory)
       (\<lambda>names. return_io
          (map (\<lambda>f. temp_directory @ ''/'' @ f) (filter (\<lambda>f. endswith f ''.png'') names)))"

definition rasterize :: "externals \<Rightarrow> string \<Rightarrow> string \<Rightarrow> string list io" where
  "rasterize ext local_path temp_directory =
     and_then (convert_pdf_to_images ext local_path temp_directory)
       (\<lambda>_. list_images temp_directory)"

text \<open>Lines 94 to 99: the model adapter, with the system prompt overridden when a
  custom one is given.\<close>

definition make_model :: "zerox_args \<Rightarrow> externals \<Rightarrow> error + vision_model" where
  "make_model args ext =
     (case litellmmodel ext (model args) (kwargs args) of
        Inl e \<Rightarrow> Inl e
      | Inr vm \<Rightarrow>
          (case custom_system_prompt args of
             None \<Rightarrow> Inr vm
           | Some p \<Rightarrow> if p \<noteq> [] then Inr (vm\<lparr>system_prompt := p\<rparr>) else Inr vm))"

text \<open>Lines 103 to 112: one iteration of the maintain-format loop. The call receives
  the current counts and prior page; all three are replaced by what it returns, and a
  truthy result is appended.\<close>

definition process_step ::
  "externals \<Rightarrow> vision_model \<Rightarrow> string \<Rightarrow> string \<Rightarrow> page_state \<Rightarrow> page_state" where
  "process_step ext vm temp_directory img st =
     (case process_page ext img vm temp_directory
             (input_token_count st) (output_token_count st) (prior_page st) of
        (result, ic, oc, pp) \<Rightarrow>
          \<lparr>input_token_count = ic, output_token_count = oc, prior_page = pp,
           aggregated_markdown =
             (case result of
                None \<Rightarrow> aggregated_markdown st
              | Some r \<Rightarrow> if r \<noteq> [] then aggregated_markdown st @ [r]
                          else aggregated_markdown st)\<rparr>)"

text \<open>Lines 101 to 128: the sequential loop, or the batch call followed by the
  selection of the string results and the two sums.\<close>

definition process_images ::
  "zerox_args \<Rightarrow> externals \<Rightarrow> vision_model \<Rightarrow> string \<Rightarrow> string list \<Rightarrow> error + page_state" where
  "process_images args ext vm temp_directory images =
     (if maintain_format args
      then Inr (fold (process_step ext vm temp_directory) images initial_state)
      else
        (case process_pages_in_batches ext images (concurrency args) vm temp_directory
                (input_token_count initial_state) (output_token_count initial_state)
                (prior_page initial_state) of
           Inl e \<Rightarrow> Inl e
         | Inr results \<Rightarrow>
             Inr (initial_state
                   \<lparr>aggregated_markdown := List.map_filter fst results,
                    input_token_count :=
                      input_token_count initial_state + sum_list (map (\<lambda>r. fst (snd r)) results),
                    output_token_count :=
                      output_token_count initial_state
                        + sum_list (map (\<lambda>r. fst (snd (snd r))) results)\<rparr>)))"

text \<open>
  The calls the maintain-format loop makes, in the order it makes them: for each image
  the arguments handed to \<open>process_page\<close> (the image, the two counts and the prior
  page), paired with what the call returns. The state moves on by the loop body.
\<close>

type_synonym page_call = "(string \<times> int \<times> int \<times> string) \<times> page_tuple"

fun page_calls ::
  "externals \<Rightarrow> vision_model \<Rightarrow> string \<Rightarrow> string list \<Rightarrow> page_state \<Rightarrow> page_call list" where
  "page_calls ext vm temp_directory [] st = []"
| "page_calls ext vm temp_directory (img # rest) st =
     ((img, input_token_count st, output_token_count st, prior_page st),
      process_page ext img vm temp_directory
        (input_token_count st) (output_token_count st) (prior_page st))
     # page_calls ext vm temp_directory rest (process_step ext vm temp_directory img st)"




text \<open>Lines 130 to 134: the aggregated Markdown is written when an output directory
  is configured.\<close>

definition result_file_path :: "string \<Rightarrow> string \<Rightarrow> string" where
  "result_file_path od name = path_join od (name @ ''.md'')"

definition persist :: "zerox_args \<Rightarrow> string \<Rightarrow> string list \<Rightarrow> unit io" where
  "persist args name markdown =
     (case output_dir args of
        None \<Rightarrow> return_io ()
      | Some od \<Rightarrow>
          if od \<noteq> [] then write_text (result_file_path od name) (join ''\<newline>\<newline>'' markdown)
          else return_io ())"

text \<open>Lines 136 to 138: the temporary directory is removed when \<open>cleanup\<close> is set
  and it exists.\<close>

definition cleanup_temp :: "zerox_args \<Rightarrow> string \<Rightarrow> unit io" where
  "cleanup_temp args temp_directory s =
     (if cleanup args \<and> path_exists s temp_directory then rmtree temp_directory s
      else (Inr (), s))"

text \<open>Lines 143 to 146: the page records, numbered from 1 in list order.\<close>

definition formatted_pages :: "string list \<Rightarrow> Page list" where
  "formatted_pages markdown =
     map (\<lambda>(i, c). \<lparr>content = c, page = int i + 1, content_length = int (length c)\<rparr>)
       (enumerate 0 markdown)"

text \<open>Lines 140 to 154: the returned object.\<close>

definition format_output :: "externals \<Rightarrow> string \<Rightarrow> page_state \<Rightarrow> ZeroxOutput" where
  "format_output ext name st =
     \<lparr>completion_time = real_of_int (end_time ext - start_time ext) / 1000,
      file_name = name,
      input_tokens = input_token_count st,
      output_tokens = output_token_count st,
      pages = formatted_pages (aggregated_markdown st)\<rparr>"

text \<open>Lines 68 to 92 together: the directories, the download and the rasterization.
  The result is the temporary directory, the local path and the list \<open>images\<close>.\<close>

definition prepare ::
  "zerox_args \<Rightarrow> externals \<Rightarrow> string \<Rightarrow> (string \<times> string \<times> string list) io" where
  "prepare args ext fp =
     and_then (make_directories args ext)
       (\<lambda>temp_directory.
          and_then (resolve_input ext fp temp_directory)
            (\<lambda>local_path.
               and_then (rasterize ext local_path temp_directory)
                 (\<lambda>images. return_io (temp_directory, local_path, images))))"

text \<open>Lines 94 to 154 together: the model adapter, the pages, the output file, the
  cleanup and the returned object. The document name is that of lines 81 and 82.\<close>

definition finish ::
  "zerox_args \<Rightarrow> externals \<Rightarrow> string \<Rightarrow> string \<Rightarrow> string list \<Rightarrow> ZeroxOutput io" where
  "finish args ext temp_directory local_path images s =
     (case make_model args ext of
        Inl e \<Rightarrow> (Inl e, s)
      | Inr vm \<Rightarrow>
          (case process_images args ext vm temp_directory images of
             Inl e \<Rightarrow> (Inl e, s)
           | Inr st \<Rightarrow>
               and_then (persist args (sanitized_name local_path) (aggregated_markdown st))
                 (\<lambda>_. and_then (cleanup_temp args temp_directory)
                    (\<lambda>_. return_io (format_output ext (sanitized_name local_path) st)))
                 s))"

text \<open>The whole function. The check of \<open>file_path\<close> comes first (lines 64 to 66).\<close>

definition zerox :: "zerox_args \<Rightarrow> externals \<Rightarrow> ZeroxOutput io" where
  "zerox args ext =
     (case file_path args of
        None \<Rightarrow> raise FileUnavailable
      | Some fp \<Rightarrow>
          if fp = [] then raise FileUnavailable
          else
            and_then (prepare args ext fp)
              (\<lambda>p. finish args ext (fst p) (fst (snd p)) (snd (snd p))))"

section \<open>The page processor and the batch scheduler\<close>

text \<open>
  Modelled from the spec: \<open>process_page\<close> (the Page Processor of section 4.2), whose
  code is outside this module. Its contract is
  \<open>process(image, model_adapter, prior_context) -> (page_markdown, input_tokens,
  output_tokens, updated_prior_context)\<close>: it passes the prior-page text to the Model
  Adapter and returns the page's Markdown, the token counts reported for this page and
  the new output as the updated prior context. The tally is the Orchestrator's
  (sections 3 and 4.4), so the two counts \<open>zerox\<close> hands over are not part of the
  contract and are not used. A page whose completion fails is caught and contributes no
  content: the empty text and no tokens. The Model Adapter (\<open>provider\<close>: image, adapter,
  prior-page text to text and token counts, or a failure) is the remote provider and
  stays a parameter.
\<close>

type_synonym completion = "string \<Rightarrow> vision_model \<Rightarrow> string \<Rightarrow> (string \<times> int \<times> int) option"

definition spec_process_page ::
  "completion \<Rightarrow> string \<Rightarrow> vision_model \<Rightarrow> string \<Rightarrow> int \<Rightarrow> int \<Rightarrow> string \<Rightarrow> page_tuple" where
  "spec_process_page provider img vm temp_directory ic oc prior =
     (case provider img vm prior of
        Some (txt, it, ot) \<Rightarrow> (Some txt, it, ot, txt)
      | None \<Rightarrow> (Some [], 0, 0, []))"

text \<open>Modelled from the spec: the sequential batches of the Batch Scheduler (section 4.3),
  consecutive slices of size \<open>n\<close> of the list.\<close>

function chunks :: "nat \<Rightarrow> 'a list \<Rightarrow> 'a list list" where
  "chunks n xs = (if n = 0 \<or> xs = [] then [] else take n xs # chunks n (drop n xs))"
  by pat_completeness auto
termination
  by (relation "measure (\<lambda>(n, xs). length xs)") auto

declare chunks.simps [simp del]

text \<open>
  Modelled from the spec: one batch of the Batch Scheduler (section 4.3). The pages of
  the batch, each with its page index, are processed concurrently: they settle in the
  order of their completion latency, \<open>latency\<close> giving the latency of each page index.
  The settled results are then put in page-index order (section 5: final aggregation
  always reorders by page index).
\<close>

definition run_batch ::
  "(string \<Rightarrow> page_tuple) \<Rightarrow> (nat \<Rightarrow> nat) \<Rightarrow> (nat \<times> string) list \<Rightarrow> page_tuple list" where
  "run_batch proc latency batch =
     map snd
       (sort_key fst
          (map (\<lambda>t. (fst t, proc (snd t))) (sort_key (\<lambda>t. latency (fst t)) batch)))"

text \<open>
  Modelled from the spec: \<open>process_pages_in_batches\<close> (the Batch Scheduler of section
  4.3), whose code is outside this module. The image list is split into sequential
  batches of size \<open>concurrency\<close>, the batches run one after another, and every page is
  processed independently with the tally and prior context it was handed. A concurrency
  of zero or less is invalid and raises.
\<close>

definition spec_process_pages_in_batches ::
  "(string \<Rightarrow> vision_model \<Rightarrow> string \<Rightarrow> int \<Rightarrow> int \<Rightarrow> string \<Rightarrow> page_tuple) \<Rightarrow> (nat \<Rightarrow> nat)
     \<Rightarrow> string list \<Rightarrow> int \<Rightarrow> vision_model \<Rightarrow> string \<Rightarrow> int \<Rightarrow> int \<Rightarrow> string
     \<Rightarrow> error + page_tuple list" where
  "spec_process_pages_in_batches pp latency images c vm temp_directory ic oc prior =
     (if c \<le> 0 then Inl (ExternalError ''concurrency'')
      else Inr (concat (map (run_batch (\<lambda>img. pp img vm temp_directory ic oc prior) latency)
                          (chunks (nat c) (enumerate 0 images)))))"

text \<open>
  The per-page token counts of a run, in the spec's words: what the provider reports for
  each page, nothing for a page whose completion fails. In maintain-format mode a page is
  completed with the preceding page's output as prior-page text (the empty text after a
  failed page and for the first page); otherwise every page is completed on its own.
\<close>

definition reported :: "(string \<times> int \<times> int) option \<Rightarrow> int \<times> int" where
  "reported r = (case r of None \<Rightarrow> (0, 0) | Some (txt, it, ot) \<Rightarrow> (it, ot))"

definition produced :: "(string \<times> int \<times> int) option \<Rightarrow> string" where
  "produced r = (case r of None \<Rightarrow> [] | Some (txt, it, ot) \<Rightarrow> txt)"

fun chained_usage :: "completion \<Rightarrow> vision_model \<Rightarrow> string list \<Rightarrow> string \<Rightarrow> (int \<times> int) list" where
  "chained_usage provider vm [] prior = []"
| "chained_usage provider vm (img # rest) prior =
     reported (provider img vm prior)
     # chained_usage provider vm rest (produced (provider img vm prior))"

definition page_usage ::
  "bool \<Rightarrow> completion \<Rightarrow> vision_model \<Rightarrow> string list \<Rightarrow> (int \<times> int) list" where
  "page_usage sequential provider vm images =
     (if sequential then chained_usage provider vm images []
      else map (\<lambda>img. reported (provider img vm [])) images)"

section \<open>A concrete run\<close>

text \<open>
  A small world to run \<open>zerox\<close> in: the download copies the document into the temporary
  directory, rasterization writes three page images, and the provider answers with the
  image's path, or with nothing for the second page.
\<close>

definition demo_download :: "string \<Rightarrow> string \<Rightarrow> string option io" where
  "demo_download fp temp_directory s =
     (Inr (Some (temp_directory @ ''/'' @ basename fp)),
      AList.update (temp_directory @ ''/'' @ basename fp) (File ''%PDF'') s)"

definition demo_convert :: "string \<Rightarrow> string \<Rightarrow> string list io" where
  "demo_convert local_path temp_directory s =
     (Inr [temp_directory @ ''/p1.png'', temp_directory @ ''/p2.png'',
           temp_directory @ ''/p3.png''],
      s @ [(temp_directory @ ''/p1.png'', File ''1''),
           (temp_directory @ ''/p2.png'', File ''2''),
           (temp_directory @ ''/p3.png'', File ''3'')])"

definition demo_complete :: completion where
  "demo_complete img vm prior =
     (if endswith img ''p2.png'' then Some ([], 7, 0)
      else Some (''# '' @ basename img, 10, int (length prior) + 1))"

definition demo_latency :: "nat \<Rightarrow> nat" where
  "demo_latency i = 5 - i"

definition demo_ext :: externals where
  "demo_ext =
     \<lparr>gettempdir = ''/tmp'', start_time = 0, end_time = 1500,
      download_file = demo_download,
      convert_pdf_to_images = demo_convert,
      litellmmodel = (\<lambda>m kw. Inr \<lparr>model_id = m, system_prompt = ''transcribe'',
                                 provider_kwargs = kw\<rparr>),
      process_page = spec_process_page demo_complete,
      process_pages_in_batches =
        spec_process_pages_in_batches (spec_process_page demo_complete) demo_latency\<rparr>"

definition demo_args :: zerox_args where
  "demo_args =
     \<lparr>cleanup = True, concurrency = 2, file_path = Some ''docs/Report (Final)!.pdf'',
      maintain_format = False, model = ''gpt-4o-mini'', output_dir = Some ''out'',
      temp_dir = ''/tmp'', custom_system_prompt = None, kwargs = []\<rparr>"

text \<open>What the batched run of this world returns and leaves on disk.\<close>

definition demo_output :: ZeroxOutput where
  "demo_output =
     \<lparr>completion_time = 3 / 2, file_name = ''report__final__'',
      input_tokens = 27, output_tokens = 2,
      pages =
        [\<lparr>content = ''# p1.png'', page = 1, content_length = 8\<rparr>,
         \<lparr>content = [], page = 2, content_length = 0\<rparr>,
         \<lparr>content = ''# p3.png'', page = 3, content_length = 8\<rparr>]\<rparr>"

definition demo_disk :: filesystem where
  "demo_disk =
     [(''out'', Dir),
      (''out/report__final__.md'', File ''# p1.png\<newline>\<newline>\<newline>\<newline># p3.png'')]"

text \<open>The state after lines 68 to 92 in this world.\<close>

definition demo_images :: "string list" where
  "demo_images =
     [''/tmp/zerox-temp/p1.png'', ''/tmp/zerox-temp/p2.png'', ''/tmp/zerox-temp/p3.png'']"

definition demo_prepared :: filesystem where
  "demo_prepared =
     [(''out'', Dir), (''/tmp/zerox-temp'', Dir),
      (''/tmp/zerox-temp/Report (Final)!.pdf'', File ''%PDF''),
      (''/tmp/zerox-temp/p1.png'', File ''1''),
      (''/tmp/zerox-temp/p2.png'', File ''2''),
      (''/tmp/zerox-temp/p3.png'', File ''3'')]"

text \<open>The adapter of this world, and its maintain-format run: the second page's text is
  empty, so the loop keeps two of the three page results, and the counts it returns are
  those of the last call.\<close>

definition demo_model :: vision_model where
  "demo_model =
     \<lparr>model_id = ''gpt-4o-mini'', system_prompt = ''transcribe'', provider_kwargs = []\<rparr>"

definition demo_seq_args :: zerox_args where
  "demo_seq_args = demo_args\<lparr>maintain_format := True\<rparr>"

definition demo_seq_output :: ZeroxOutput where
  "demo_seq_output =
     \<lparr>completion_time = 3 / 2, file_name = ''report__final__'',
      input_tokens = 10, output_tokens = 1,
      pages =
        [\<lparr>content = ''# p1.png'', page = 1, content_length = 8\<rparr>,
         \<lparr>content = ''# p3.png'', page = 2, content_length = 8\<rparr>]\<rparr>"

definition demo_seq_disk :: filesystem where
  "demo_seq_disk =
     [(''out'', Dir), (''out/report__final__.md'', File ''# p1.png\<newline>\<newline># p3.png'')]"

text \<open>The state in which rasterization starts in this world.\<close>

definition demo_downloaded :: filesystem where
  "demo_downloaded =
     [(''out'', Dir), (''/tmp/zerox-temp'', Dir),
      (''/tmp/zerox-temp/Report (Final)!.pdf'', File ''%PDF'')]"

text \<open>
  The same world with a directory that enumerates the third page image before the
  second: rasterization writes the same three files and reports them in page order, the
  listing gives \<open>p1.png\<close>, \<open>p3.png\<close>, \<open>p2.png\<close>.
\<close>

definition shuffled_convert :: "string \<Rightarrow> string \<Rightarrow> string list io" where
  "shuffled_convert local_path temp_directory s =
     (Inr [temp_directory @ ''/p1.png'', temp_directory @ ''/p2.png'',
           temp_directory @ ''/p3.png''],
      s @ [(temp_directory @ ''/p1.png'', File ''1''),
           (temp_directory @ ''/p3.png'', File ''3''),
           (temp_directory @ ''/p2.png'', File ''2'')])"

definition shuffled_ext :: externals where
  "shuffled_ext = demo_ext\<lparr>convert_pdf_to_images := shuffled_convert\<rparr>"

definition shuffled_images :: "string list" where
  "shuffled_images =
     [''/tmp/zerox-temp/p1.png'', ''/tmp/zerox-temp/p3.png'', ''/tmp/zerox-temp/p2.png'']"

definition shuffled_prepared :: filesystem where
  "shuffled_prepared =
     [(''out'', Dir), (''/tmp/zerox-temp'', Dir),
      (''/tmp/zerox-temp/Report (Final)!.pdf'', File ''%PDF''),
      (''/tmp/zerox-temp/p1.png'', File ''1''),
      (''/tmp/zerox-temp/p3.png'', File ''3''),
      (''/tmp/zerox-temp/p2.png'', File ''2'')]"

definition shuffled_output :: ZeroxOutput where
  "shuffled_output =
     \<lparr>completion_time = 3 / 2, file_name = ''report__final__'',
      input_tokens = 27, output_tokens = 2,
      pages =
        [\<lparr>content = ''# p1.png'', page = 1, content_length = 8\<rparr>,
         \<lparr>content = ''# p3.png'', page = 2, content_length = 8\<rparr>,
         \<lparr>content = [], page = 3, content_length = 0\<rparr>]\<rparr>"

definition shuffled_disk :: filesystem where
  "shuffled_disk =
     [(''out'', Dir),
      (''out/report__final__.md'', File ''# p1.png\<newline>\<newline># p3.png\<newline>\<newline>'')]"


text \<open>
  The first world again, started on a disk where an earlier run that did not clean up
  has left a page image of another document in the temporary directory.
\<close>

definition stale_disk :: filesystem where
  "stale_disk = [(''/tmp/zerox-temp'', Dir), (''/tmp/zerox-temp/old.png'', File ''0'')]"

definition stale_output :: ZeroxOutput where
  "stale_output =
     \<lparr>completion_time = 3 / 2, file_name = ''report__final__'',
      input_tokens = 37, output_tokens = 3,
      pages =
        [\<lparr>content = ''# old.png'', page = 1, content_length = 9\<rparr>,
         \<lparr>content = ''# p1.png'', page = 2, content_length = 8\<rparr>,
         \<lparr>content = [], page = 3, content_length = 0\<rparr>,
         \<lparr>content = ''# p3.png'', page = 4, content_length = 8\<rparr>]\<rparr>"

definition stale_final :: filesystem where
  "stale_final =
     [(''out'', Dir),
      (''out/report__final__.md'',
       File ''# old.png\<newline>\<newline># p1.png\<newline>\<newline>\<newline>\<newline># p3.png'')]"




text \<open>A download that resolves nothing: it returns \<open>None\<close> and leaves the disk as it is.\<close>

definition no_download :: "string \<Rightarrow> string \<Rightarrow> string option io" where
  "no_download fp temp_directory = return_io None"

section \<open>Properties\<close>

subsection \<open>The concrete run\<close>

lemma demo_run: "zerox demo_args demo_ext [] = (Inr demo_output, demo_disk)"
  by code_simp

lemma demo_prepare:
  "prepare demo_args demo_ext ''docs/Report (Final)!.pdf'' [] =
     (Inr (''/tmp/zerox-temp'', ''/tmp/zerox-temp/Report (Final)!.pdf'', demo_images),
      demo_prepared)"
  by code_simp

subsection \<open>The shape of a successful run\<close>

lemma and_then_Inr:
  "and_then m f s = (Inr b, s') \<longleftrightarrow> (\<exists>a s1. m s = (Inr a, s1) \<and> f a s1 = (Inr b, s'))"
  by (auto simp: and_then_def split: prod.splits sum.splits)

lemma finish_success:
  assumes "finish args ext td lp images s = (Inr out, s')"
  shows "\<exists>vm st s2. make_model args ext = Inr vm
           \<and> process_images args ext vm td images = Inr st
           \<and> persist args (sanitized_name lp) (aggregated_markdown st) s = (Inr (), s2)
           \<and> cleanup_temp args td s2 = (Inr (), s')
           \<and> out = format_output ext (sanitized_name lp) st"
proof (cases "make_model args ext")
  case (Inl e)
  with assms show ?thesis by (simp add: finish_def)
next
  case vm: (Inr vm)
  show ?thesis
  proof (cases "process_images args ext vm td images")
    case (Inl e)
    with assms vm show ?thesis by (simp add: finish_def)
  next
    case st: (Inr st)
    from assms vm st show ?thesis
      by (auto simp: finish_def and_then_Inr return_io_def)
  qed
qed

lemma zerox_success:
  assumes "zerox args ext s = (Inr out, s')"
  obtains fp td lp images s1 vm st s2 where
    "file_path args = Some fp" "fp \<noteq> []"
    "prepare args ext fp s = (Inr (td, lp, images), s1)"
    "make_model args ext = Inr vm"
    "process_images args ext vm td images = Inr st"
    "persist args (sanitized_name lp) (aggregated_markdown st) s1 = (Inr (), s2)"
    "cleanup_temp args td s2 = (Inr (), s')"
    "out = format_output ext (sanitized_name lp) st"
proof -
  from assms obtain fp where fp: "file_path args = Some fp" "fp \<noteq> []"
    by (auto simp: zerox_def raise_def split: option.splits if_splits)
  with assms obtain p s1 where p: "prepare args ext fp s = (Inr p, s1)"
    and f: "finish args ext (fst p) (fst (snd p)) (snd (snd p)) s1 = (Inr out, s')"
    by (auto simp: zerox_def and_then_Inr)
  from finish_success [OF f] p fp that show thesis
    by (cases p) auto
qed

lemma makedirs_success:
  "makedirs p s = (Inr u, s1) \<Longrightarrow> map_of s1 p = Some Dir"
  by (auto simp: makedirs_def map_add_def split: option.splits node.splits)

lemma make_directories_success:
  assumes "make_directories args ext s = (Inr td, s1)"
  shows "td = temp_directory_of args ext" and "map_of s1 td = Some Dir"
  using assms
  by (auto simp: make_directories_def and_then_Inr return_io_def dest: makedirs_success)

lemma prepare_success:
  assumes "prepare args ext fp s = (Inr (td, lp, images), s1)"
  obtains s0 s2 where
    "make_directories args ext s = (Inr td, s0)"
    "resolve_input ext fp td s0 = (Inr lp, s2)"
    "rasterize ext lp td s2 = (Inr images, s1)"
  using assms by (auto simp: prepare_def and_then_Inr return_io_def)

lemma rmtree_removes:
  "rmtree d s = (Inr u, s') \<Longrightarrow> \<not> path_exists s' d"
  by (auto simp: rmtree_def path_exists_def map_of_eq_None_iff
           split: option.splits node.splits)

lemma cleanup_temp_removes:
  "cleanup_temp args td s = (Inr u, s') \<Longrightarrow> cleanup args \<Longrightarrow> \<not> path_exists s' td"
  by (auto simp: cleanup_temp_def dest: rmtree_removes split: if_splits)

lemma lower_isalnum:
  assumes "isalnum c"
  shows "isalnum (lower c) \<and> lower (lower c) = lower c"
proof (cases "has_lower (of_char c)")
  case True
  define n where "n = (of_char c :: nat)"
  define k where "k = (of_char (lower c) :: nat)"
  from True have up: "(65 \<le> n \<and> n \<le> 90) \<or> (192 \<le> n \<and> n \<le> 214) \<or> (216 \<le> n \<and> n \<le> 222)"
    unfolding has_lower_def n_def .
  then have "(n + 32) mod 256 = n + 32" by auto
  moreover from True have "lower c = char_of (n + 32)"
    unfolding n_def by (simp only: lower_def if_True)
  ultimately have k: "k = n + 32" unfolding k_def by simp
  from up k have a: "(97 \<le> k \<and> k \<le> 122) \<or> (216 \<le> k \<and> k \<le> 246) \<or> (248 \<le> k \<and> k \<le> 255)"
    by arith
  from up k have b: "\<not> has_lower k" unfolding has_lower_def by arith
  from a have "isalnum (lower c)"
    unfolding isalnum_def Let_def k_def [symmetric] by blast
  moreover from b have "lower (lower c) = lower c"
    unfolding k_def by (subst lower_def) (simp only: if_False)
  ultimately show ?thesis by (rule conjI)
next
  case False
  then have "lower c = c" by (simp only: lower_def if_False)
  with assms show ?thesis by simp
qed

lemma sanitize_char_range:
  "sanitize_char c = CHR ''_'' \<or> (isalnum (sanitize_char c) \<and> lower (sanitize_char c) = sanitize_char c)"
  using lower_isalnum [of c] by (simp add: sanitize_char_def)

lemma content_formatted_pages: "map content (formatted_pages md) = md"
proof -
  have "map content (formatted_pages md) = map snd (enumerate 0 md)"
    by (simp add: formatted_pages_def case_prod_beta comp_def)
  then show ?thesis by simp
qed

lemma path_exists_iff: "path_exists s p \<longleftrightarrow> p \<in> fst ` set s"
  by (simp add: path_exists_def map_of_eq_None_iff)

lemma write_text_success:
  assumes "write_text p txt s = (Inr u, s1)"
  shows "map_of s1 p = Some (File txt)"
    and "map fst s1 = (if path_exists s p then map fst s else map fst s @ [p])"
    and "q \<noteq> p \<Longrightarrow> map_of s1 q = map_of s q"
proof -
  from assms have s1: "s1 = AList.update p (File txt) s"
    by (auto simp: write_text_def split: option.splits node.splits)
  show "map_of s1 p = Some (File txt)" by (simp add: s1 update_conv')
  show "map fst s1 = (if path_exists s p then map fst s else map fst s @ [p])"
    by (simp add: s1 update_keys path_exists_iff)
  show "q \<noteq> p \<Longrightarrow> map_of s1 q = map_of s q" by (simp add: s1 update_conv')
qed

lemma demo_paths:
  "file_path demo_args = Some ''docs/Report (Final)!.pdf''"
  "output_dir demo_args = Some ''out''"
  by (simp_all add: demo_args_def)

subsection \<open>The batch scheduler returns results in image order\<close>

lemma sort_key_unique:
  assumes "sorted (map f xs)" and "distinct (map f xs)"
    and "distinct (map f ys)" and "set ys = set xs"
  shows "sort_key f ys = xs"
proof -
  have d: "distinct (map f (sort_key f ys))"
    using assms(3) by (simp add: distinct_map)
  have "set (map f (sort_key f ys)) = set (map f xs)"
    using assms(4) by simp
  with d assms(1,2) have "map f (sort_key f ys) = map f xs"
    by (intro sorted_distinct_set_unique) simp_all
  moreover from assms(2,4) have "inj_on f (set (sort_key f ys) \<union> set xs)"
    by (simp add: distinct_map)
  ultimately show ?thesis by (simp add: inj_on_map_eq_map)
qed

lemma run_batch_in_order:
  assumes "sorted (map fst batch)" and "distinct (map fst batch)"
  shows "run_batch proc latency batch = map (\<lambda>t. proc (snd t)) batch"
proof -
  let ?g = "\<lambda>t. (fst t, proc (snd t))"
  let ?settled = "map ?g (sort_key (\<lambda>t. latency (fst t)) batch)"
  have fg: "map fst (map ?g zs) = map fst zs" for zs :: "(nat \<times> string) list"
    by (simp add: comp_def)
  have "distinct (map fst (sort_key (\<lambda>t. latency (fst t)) batch))"
    using assms(2) by (simp add: distinct_map)
  then have 1: "distinct (map fst ?settled)" by (simp only: fg)
  have 2: "set ?settled = set (map ?g batch)" by simp
  from assms have 3: "sorted (map fst (map ?g batch))" "distinct (map fst (map ?g batch))"
    by (simp_all only: fg)
  from sort_key_unique [OF 3 1 2] have "sort_key fst ?settled = map ?g batch" .
  then show ?thesis by (simp add: run_batch_def comp_def)
qed

lemma batches_in_order:
  assumes "0 < n" and "sorted (map fst xs)" and "distinct (map fst xs)"
  shows "concat (map (run_batch proc latency) (chunks n xs)) = map (\<lambda>t. proc (snd t)) xs"
  using assms
proof (induction n xs rule: chunks.induct)
  case (1 n xs)
  show ?case
  proof (cases "xs = []")
    case True
    then show ?thesis by (simp add: chunks.simps)
  next
    case False
    from "1.prems" have t: "sorted (map fst (take n xs))" "distinct (map fst (take n xs))"
      by (simp_all add: take_map [symmetric])
    from "1.prems" have d: "sorted (map fst (drop n xs))" "distinct (map fst (drop n xs))"
      by (simp_all add: drop_map [symmetric])
    from "1.prems"(1) False have ih:
      "concat (map (run_batch proc latency) (chunks n (drop n xs)))
         = map (\<lambda>t. proc (snd t)) (drop n xs)"
      by (intro "1.IH" d) simp_all
    from "1.prems"(1) False have
      "concat (map (run_batch proc latency) (chunks n xs))
         = run_batch proc latency (take n xs)
           @ concat (map (run_batch proc latency) (chunks n (drop n xs)))"
      by (subst chunks.simps) simp
    also have "\<dots> = map (\<lambda>t. proc (snd t)) (take n xs) @ map (\<lambda>t. proc (snd t)) (drop n xs)"
      by (simp only: run_batch_in_order [OF t] ih)
    also have "\<dots> = map (\<lambda>t. proc (snd t)) xs"
      by (simp only: map_append [symmetric] append_take_drop_id)
    finally show ?thesis .
  qed
qed

lemma spec_batches_in_order:
  assumes "1 \<le> c"
  shows "spec_process_pages_in_batches pp latency images c vm td ic oc prior
           = Inr (map (\<lambda>img. pp img vm td ic oc prior) images)"
proof -
  have "concat (map (run_batch (\<lambda>img. pp img vm td ic oc prior) latency)
                  (chunks (nat c) (enumerate 0 images)))
          = map (\<lambda>t. pp (snd t) vm td ic oc prior) (enumerate 0 images)"
    using assms by (intro batches_in_order) simp_all
  also have "\<dots> = map (\<lambda>img. pp img vm td ic oc prior) (map snd (enumerate 0 images))"
    by (simp only: map_map comp_def)
  finally show ?thesis using assms
    by (simp add: spec_process_pages_in_batches_def)
qed

lemma process_images_batched:
  assumes "\<not> maintain_format args"
    and "process_pages_in_batches ext images (concurrency args) vm td 0 0 [] = Inr results"
  shows "process_images args ext vm td images
           = Inr \<lparr>input_token_count = sum_list (map (\<lambda>r. fst (snd r)) results),
                  output_token_count = sum_list (map (\<lambda>r. fst (snd (snd r))) results),
                  prior_page = [],
                  aggregated_markdown = List.map_filter fst results\<rparr>"
  using assms by (simp add: process_images_def initial_state_def)

lemma process_images_spec_batched:
  assumes "\<not> maintain_format args" and "1 \<le> concurrency args"
    and "process_pages_in_batches ext = spec_process_pages_in_batches pp latency"
  shows "process_images args ext vm td images
           = Inr \<lparr>input_token_count =
                    sum_list (map (\<lambda>img. fst (snd (pp img vm td 0 0 []))) images),
                  output_token_count =
                    sum_list (map (\<lambda>img. fst (snd (snd (pp img vm td 0 0 [])))) images),
                  prior_page = [],
                  aggregated_markdown = List.map_filter (\<lambda>img. fst (pp img vm td 0 0 [])) images\<rparr>"
proof -
  have "process_pages_in_batches ext images (concurrency args) vm td 0 0 []
          = Inr (map (\<lambda>img. pp img vm td 0 0 []) images)"
    by (simp only: assms(3) spec_batches_in_order [OF assms(2)])
  from process_images_batched [OF assms(1) this] show ?thesis
    by (simp add: comp_def List.map_filter_def filter_map)
qed

lemma zerox_cong:
  assumes "file_path args' = file_path args"
    and "\<And>fp. prepare args' ext' fp = prepare args ext fp"
    and "\<And>td lp images. finish args' ext' td lp images = finish args ext td lp images"
  shows "zerox args' ext' = zerox args ext"
  by (rule ext) (simp add: zerox_def assms split: option.splits)

lemma prepare_batch_update:
  "prepare (args\<lparr>concurrency := c\<rparr>) (ext\<lparr>process_pages_in_batches := b\<rparr>) fp
     = prepare args ext fp"
  by (simp add: prepare_def make_directories_def temp_directory_of_def resolve_input_def
                rasterize_def)

lemma stages_batch_update:
  "make_model (args\<lparr>concurrency := c\<rparr>) (ext\<lparr>process_pages_in_batches := b\<rparr>)
     = make_model args ext"
  "persist (args\<lparr>concurrency := c\<rparr>) = persist args"
  "cleanup_temp (args\<lparr>concurrency := c\<rparr>) = cleanup_temp args"
  "format_output (ext\<lparr>process_pages_in_batches := b\<rparr>) = format_output ext"
  by (simp_all add: make_model_def persist_def cleanup_temp_def format_output_def fun_eq_iff
                split: sum.splits option.splits)

lemma finish_batch_update:
  assumes "\<And>vm. process_images (args\<lparr>concurrency := c\<rparr>) (ext\<lparr>process_pages_in_batches := b\<rparr>)
                    vm td images
                 = process_images args ext vm td images"
  shows "finish (args\<lparr>concurrency := c\<rparr>) (ext\<lparr>process_pages_in_batches := b\<rparr>) td lp images
           = finish args ext td lp images"
  unfolding finish_def stages_batch_update assms by (rule refl)


lemma demo_make_model: "make_model demo_args demo_ext = Inr demo_model"
  by code_simp

lemma demo_batches:
  "process_pages_in_batches demo_ext
     = spec_process_pages_in_batches (process_page demo_ext) demo_latency"
  by (simp add: demo_ext_def)

subsection \<open>The maintain-format loop and its calls\<close>




lemma length_page_calls: "length (page_calls ext vm td images st) = length images"
  by (induction images arbitrary: st) simp_all




lemma length_map_filter_le: "length (List.map_filter f xs) \<le> length xs"
  by (simp add: List.map_filter_def)

lemma formatted_pages_length: "length (formatted_pages md) = length md"
  by (simp add: formatted_pages_def)

lemma page_formatted_pages:
  "map page (formatted_pages md) = map int [1..<Suc (length md)]"
proof -
  have g: "map (\<lambda>x. int (fst x) + 1) xs = map (\<lambda>i. int (Suc i)) (map fst xs)"
    for xs :: "(nat \<times> string) list"
    by (simp add: comp_def)
  have "map page (formatted_pages md) = map (\<lambda>x. int (fst x) + 1) (enumerate 0 md)"
    by (simp add: formatted_pages_def case_prod_beta comp_def)
  also have "\<dots> = map (\<lambda>i. int (Suc i)) [0..<length md]"
    by (simp only: g map_fst_enumerate add_0)
  also have "\<dots> = map int (map Suc [0..<length md])"
    by (simp add: comp_def)
  also have "\<dots> = map int [1..<Suc (length md)]"
    by (simp only: map_Suc_upt One_nat_def)
  finally show ?thesis .
qed

lemma demo_seq_run: "zerox demo_seq_args demo_ext [] = (Inr demo_seq_output, demo_seq_disk)"
  by code_simp

lemma demo_seq_prepare:
  "prepare demo_seq_args demo_ext ''docs/Report (Final)!.pdf'' [] =
     (Inr (''/tmp/zerox-temp'', ''/tmp/zerox-temp/Report (Final)!.pdf'', demo_images),
      demo_prepared)"
  by code_simp

subsection \<open>The write and the cleanup\<close>







subsection \<open>The calls of the maintain-format loop, continued\<close>


lemma fold_counts:
  "images \<noteq> [] \<Longrightarrow>
     input_token_count (fold (process_step ext vm td) images st)
       = fst (snd (snd (last (page_calls ext vm td images st))))
   \<and> output_token_count (fold (process_step ext vm td) images st)
       = fst (snd (snd (snd (last (page_calls ext vm td images st)))))"
proof (induction images arbitrary: st)
  case Nil
  then show ?case by simp
next
  case (Cons img rest)
  show ?case
  proof (cases "rest = []")
    case True
    then show ?thesis by (simp add: process_step_def split: prod.splits)
  next
    case False
    from Cons.IH [OF False] False show ?thesis
      by (cases rest) simp_all
  qed
qed





lemma shuffled_convert_result:
  "convert_pdf_to_images shuffled_ext ''/tmp/zerox-temp/Report (Final)!.pdf''
     ''/tmp/zerox-temp'' demo_downloaded
   = (Inr demo_images, shuffled_prepared)"
  by code_simp



subsection \<open>Runs of the other worlds\<close>

lemma demo_convert_result:
  "convert_pdf_to_images demo_ext ''/tmp/zerox-temp/Report (Final)!.pdf''
     ''/tmp/zerox-temp'' demo_downloaded
   = (Inr demo_images, demo_prepared)"
  by code_simp

lemma shuffled_run: "zerox demo_args shuffled_ext [] = (Inr shuffled_output, shuffled_disk)"
  by code_simp

lemma shuffled_prepare:
  "prepare demo_args shuffled_ext ''docs/Report (Final)!.pdf'' [] =
     (Inr (''/tmp/zerox-temp'', ''/tmp/zerox-temp/Report (Final)!.pdf'', shuffled_images),
      shuffled_prepared)"
  by code_simp

lemma stale_run: "zerox demo_args demo_ext stale_disk = (Inr stale_output, stale_final)"
  by code_simp

lemma demo_page_texts:
  "map (\<lambda>img. fst (process_page demo_ext img demo_model ''/tmp/zerox-temp'' 0 0 []))
     demo_images
   = [Some ''# p1.png'', Some [], Some ''# p3.png'']"
  by code_simp



subsection \<open>What holds of every run\<close>

text \<open>
  With the scheduler of the spec, a batched run does not depend on the concurrency value
  nor on the completion latencies, and its page texts are the string results of the list
  \<open>images\<close> in list order.
\<close>

lemma zerox_batched_follows_listing:
  assumes "\<not> maintain_format args" and "1 \<le> concurrency args"
    and "process_pages_in_batches ext
           = spec_process_pages_in_batches (process_page ext) latency"
  shows "(\<forall>c' latency'. 1 \<le> c' \<longrightarrow>
            zerox (args\<lparr>concurrency := c'\<rparr>)
                  (ext\<lparr>process_pages_in_batches :=
                         spec_process_pages_in_batches (process_page ext) latency'\<rparr>) s
              = zerox args ext s)
       \<and> (\<forall>fp td lp images s1 vm out s'.
            file_path args = Some fp
            \<and> prepare args ext fp s = (Inr (td, lp, images), s1)
            \<and> make_model args ext = Inr vm
            \<and> zerox args ext s = (Inr out, s')
            \<longrightarrow> map content (pages out)
                  = List.map_filter (\<lambda>img. fst (process_page ext img vm td 0 0 [])) images)"
proof (intro conjI allI impI)
  fix c' :: int and latency' :: "nat \<Rightarrow> nat"
  assume c': "1 \<le> c'"
  let ?args = "args\<lparr>concurrency := c'\<rparr>"
  let ?ext = "ext\<lparr>process_pages_in_batches :=
                    spec_process_pages_in_batches (process_page ext) latency'\<rparr>"
  have "process_images ?args ?ext vm td images = process_images args ext vm td images"
    for vm td images
  proof -
    have a: "\<not> maintain_format ?args" "1 \<le> concurrency ?args"
      "process_pages_in_batches ?ext
         = spec_process_pages_in_batches (process_page ext) latency'"
      using assms(1) c' by simp_all
    show ?thesis
      by (simp only: process_images_spec_batched [OF a] process_images_spec_batched [OF assms])
  qed
  then have "finish ?args ?ext td lp images = finish args ext td lp images" for td lp images
    by (rule finish_batch_update)
  then have "zerox ?args ?ext = zerox args ext"
    by (intro zerox_cong prepare_batch_update) simp_all
  then show "zerox ?args ?ext s = zerox args ext s" by simp
next
  fix fp td lp images s1 vm out s'
  assume h: "file_path args = Some fp
            \<and> prepare args ext fp s = (Inr (td, lp, images), s1)
            \<and> make_model args ext = Inr vm
            \<and> zerox args ext s = (Inr out, s')"
  then obtain fp' td' lp' images' s1' vm' st where
    r: "file_path args = Some fp'"
       "prepare args ext fp' s = (Inr (td', lp', images'), s1')"
       "make_model args ext = Inr vm'"
       "process_images args ext vm' td' images' = Inr st"
       "out = format_output ext (sanitized_name lp') st"
    by (elim conjE zerox_success)
  with h have eq: "td' = td" "images' = images" "vm' = vm" by simp_all
  from r(4) have "aggregated_markdown st
      = List.map_filter (\<lambda>img. fst (process_page ext img vm td 0 0 [])) images"
    unfolding eq process_images_spec_batched [OF assms] by auto
  with r(5) show "map content (pages out)
      = List.map_filter (\<lambda>img. fst (process_page ext img vm td 0 0 [])) images"
    by (simp add: format_output_def content_formatted_pages)
qed


text \<open>The page numbers of every run that returns are 1 to the number of pages.\<close>

lemma zerox_page_numbers_contiguous:
  assumes "zerox args ext s = (Inr out, s')"
  shows "map page (pages out) = map int [1..<Suc (length (pages out))]"
  using assms
  by (elim zerox_success)
     (simp add: format_output_def page_formatted_pages formatted_pages_length)

text \<open>
  With the page processor and the scheduler of the spec, a batched run returns one page
  per entry of \<open>images\<close>, and its totals are the sums of the per-page counts.
\<close>

lemma spec_process_page_reported:
  "spec_process_page provider img vm td ic oc prior
     = (Some (produced (provider img vm prior)),
        fst (reported (provider img vm prior)),
        snd (reported (provider img vm prior)),
        produced (provider img vm prior))"
  by (simp add: spec_process_page_def reported_def produced_def split: option.splits prod.splits)

lemma zerox_batched_spec_run:
  assumes "\<not> maintain_format args"
    and "process_page ext = spec_process_page provider"
    and "process_pages_in_batches ext
           = spec_process_pages_in_batches (process_page ext) latency"
    and "file_path args = Some fp"
    and "prepare args ext fp s = (Inr (td, lp, images), s1)"
    and "make_model args ext = Inr vm"
    and "zerox args ext s = (Inr out, s')"
  shows "length (pages out) = length images
       \<and> input_tokens out = sum_list (map fst (page_usage False provider vm images))
       \<and> output_tokens out = sum_list (map snd (page_usage False provider vm images))"
proof -
  from assms(7) obtain fp' td' lp' images' s1' vm' st where
    r: "file_path args = Some fp'"
       "prepare args ext fp' s = (Inr (td', lp', images'), s1')"
       "make_model args ext = Inr vm'"
       "process_images args ext vm' td' images' = Inr st"
       "out = format_output ext (sanitized_name lp') st"
    by (elim zerox_success)
  with assms have eq: "td' = td" "images' = images" "vm' = vm" by simp_all
  from r(4) have p: "process_images args ext vm td images = Inr st" by (simp only: eq)
  have c: "1 \<le> concurrency args"
  proof (rule ccontr)
    assume "\<not> 1 \<le> concurrency args"
    then have "process_pages_in_batches ext images (concurrency args) vm td 0 0 []
                 = Inl (ExternalError ''concurrency'')"
      by (simp add: assms(3) spec_process_pages_in_batches_def)
    with p assms(1) show False by (simp add: process_images_def initial_state_def)
  qed
  from p have st: "st =
      \<lparr>input_token_count =
         sum_list (map (\<lambda>img. fst (snd (process_page ext img vm td 0 0 []))) images),
       output_token_count =
         sum_list (map (\<lambda>img. fst (snd (snd (process_page ext img vm td 0 0 [])))) images),
       prior_page = [],
       aggregated_markdown =
         List.map_filter (\<lambda>img. fst (process_page ext img vm td 0 0 [])) images\<rparr>"
    unfolding process_images_spec_batched [OF assms(1) c assms(3)] by simp
  have "length (aggregated_markdown st) = length images"
    by (simp add: st assms(2) spec_process_page_reported List.map_filter_def)
  moreover have "input_token_count st
                   = sum_list (map fst (page_usage False provider vm images))"
    by (simp add: st assms(2) spec_process_page_reported page_usage_def comp_def)
  moreover have "output_token_count st
                   = sum_list (map snd (page_usage False provider vm images))"
    by (simp add: st assms(2) spec_process_page_reported page_usage_def comp_def)
  ultimately show ?thesis
    using r(5) by (simp add: format_output_def formatted_pages_length)
qed

text \<open>
  Whatever the page processor, the totals of a maintain-format run are the two counts
  its last call returned.
\<close>

lemma zerox_sequential_totals:
  assumes "maintain_format args"
    and "file_path args = Some fp"
    and "prepare args ext fp s = (Inr (td, lp, images), s1)"
    and "make_model args ext = Inr vm"
    and "zerox args ext s = (Inr out, s')"
    and "images \<noteq> []"
  shows "input_tokens out
           = fst (snd (snd (last (page_calls ext vm td images initial_state))))
       \<and> output_tokens out
           = fst (snd (snd (snd (last (page_calls ext vm td images initial_state)))))"
proof -
  from assms(5) obtain fp' td' lp' images' s1' vm' st where
    r: "file_path args = Some fp'"
       "prepare args ext fp' s = (Inr (td', lp', images'), s1')"
       "make_model args ext = Inr vm'"
       "process_images args ext vm' td' images' = Inr st"
       "out = format_output ext (sanitized_name lp') st"
    by (elim zerox_success)
  with assms have eq: "td' = td" "images' = images" "vm' = vm" by simp_all
  from r(4) assms(1) have "st = fold (process_step ext vm td) images initial_state"
    by (simp add: process_images_def eq)
  with fold_counts [OF assms(6), of ext vm td initial_state] r(5) show ?thesis
    by (simp add: format_output_def)
qed

subsection \<open>The empty file path\<close>

text \<open>
  C3. When \<open>file_path\<close> is empty (or \<open>None\<close>), \<open>zerox\<close> raises \<open>FileUnavailable\<close> and
  the file system is the one it started with: no directory has been created, nothing has
  changed before the raise.
\<close>

theorem zerox_empty_file_path:
  "\<not> truthy (file_path args) \<Longrightarrow> zerox args ext s = (Inl FileUnavailable, s)"
  by (cases "file_path args") (simp_all add: zerox_def raise_def)

theorem zerox_empty_file_path_witness:
  "\<not> truthy (file_path (demo_args\<lparr>file_path := Some []\<rparr>))
   \<and> zerox (demo_args\<lparr>file_path := Some []\<rparr>) demo_ext [(''out'', Dir)]
       = (Inl FileUnavailable, [(''out'', Dir)])"
  using zerox_empty_file_path [of "demo_args\<lparr>file_path := Some []\<rparr>" demo_ext "[(''out'', Dir)]"]
  by simp

subsection \<open>Page records\<close>

text \<open>
  C7. In every page record of the object \<open>zerox\<close> returns, \<open>content_length\<close> is the
  length of \<open>content\<close>.
\<close>

theorem zerox_content_length:
  assumes "zerox args ext s = (Inr out, s')"
  shows "\<forall>p \<in> set (pages out). content_length p = int (length (content p))"
  using assms
  by (elim zerox_success) (auto simp: format_output_def formatted_pages_def)

theorem zerox_content_length_witness:
  "zerox demo_args demo_ext [] = (Inr demo_output, demo_disk)
   \<and> list_all (\<lambda>p. content_length p = int (length (content p))) (pages demo_output)"
  using zerox_content_length [OF demo_run] demo_run by (simp add: list_all_iff)

subsection \<open>The temporary directory\<close>

text \<open>
  C9. When a run with \<open>cleanup\<close> set returns its result, the working temporary
  directory does not exist in the file system the run leaves.
\<close>

theorem zerox_cleanup_removes_temp_directory:
  assumes "zerox args ext s = (Inr out, s')" and "cleanup args"
  shows "\<not> path_exists s' (temp_directory_of args ext)"
proof -
  from assms(1) obtain fp td lp images s1 s2 where
    p: "prepare args ext fp s = (Inr (td, lp, images), s1)"
    and c: "cleanup_temp args td s2 = (Inr (), s')"
    by (elim zerox_success)
  from p have "td = temp_directory_of args ext"
    by (elim prepare_success) (rule make_directories_success)
  with cleanup_temp_removes [OF c assms(2)] show ?thesis by simp
qed

theorem zerox_cleanup_removes_temp_directory_witness:
  "zerox demo_args demo_ext [] = (Inr demo_output, demo_disk) \<and> cleanup demo_args
   \<and> \<not> path_exists demo_disk ''/tmp/zerox-temp''
   \<and> temp_directory_of demo_args demo_ext = ''/tmp/zerox-temp''"
proof -
  have t: "temp_directory_of demo_args demo_ext = ''/tmp/zerox-temp''" by code_simp
  have c: "cleanup demo_args" by (simp add: demo_args_def)
  from zerox_cleanup_removes_temp_directory [OF demo_run c] demo_run c t
  show ?thesis by simp
qed

text \<open>
  C10. When \<open>file_path\<close> is not empty and the download yields no local path (\<open>None\<close> or
  the empty string), \<open>zerox\<close> raises \<open>FileUnavailable\<close>. The temporary directory was
  created before the download was called, and the run ends in exactly the state the
  download left: the cleanup step is not reached, whatever \<open>cleanup\<close> is.
\<close>

theorem zerox_download_unavailable:
  assumes "file_path args = Some fp" and "fp \<noteq> []"
    and "make_directories args ext s = (Inr td, s1)"
    and "download_file ext fp td s1 = (Inr lp, s2)"
    and "\<not> truthy lp"
  shows "zerox args ext s = (Inl FileUnavailable, s2) \<and> map_of s1 td = Some Dir
         \<and> td = temp_directory_of args ext"
proof -
  from assms(4,5) have "resolve_input ext fp td s1 = (Inl FileUnavailable, s2)"
    by (cases lp) (simp_all add: resolve_input_def and_then_def raise_def)
  with assms(3) have "prepare args ext fp s = (Inl FileUnavailable, s2)"
    by (simp add: prepare_def and_then_def)
  with assms(1,2) have "zerox args ext s = (Inl FileUnavailable, s2)"
    by (simp add: zerox_def and_then_def)
  with make_directories_success [OF assms(3)] show ?thesis by simp
qed

lemma demo_directories:
  "make_directories demo_args (demo_ext\<lparr>download_file := no_download\<rparr>) []
     = (Inr ''/tmp/zerox-temp'', [(''out'', Dir), (''/tmp/zerox-temp'', Dir)])"
  by code_simp

theorem zerox_download_unavailable_witness:
  "cleanup demo_args
   \<and> zerox demo_args (demo_ext\<lparr>download_file := no_download\<rparr>) []
       = (Inl FileUnavailable, [(''out'', Dir), (''/tmp/zerox-temp'', Dir)])
   \<and> path_exists [(''out'', Dir), (''/tmp/zerox-temp'', Dir)] ''/tmp/zerox-temp''
   \<and> temp_directory_of demo_args (demo_ext\<lparr>download_file := no_download\<rparr>) = ''/tmp/zerox-temp''"
proof -
  have a: "file_path demo_args = Some ''docs/Report (Final)!.pdf''"
    and b: "''docs/Report (Final)!.pdf'' \<noteq> []" and c: "cleanup demo_args"
    by (simp_all add: demo_args_def)
  have d: "download_file (demo_ext\<lparr>download_file := no_download\<rparr>) ''docs/Report (Final)!.pdf''
             ''/tmp/zerox-temp'' [(''out'', Dir), (''/tmp/zerox-temp'', Dir)]
           = (Inr None, [(''out'', Dir), (''/tmp/zerox-temp'', Dir)])"
    by (simp add: no_download_def return_io_def)
  have e: "\<not> truthy None" by simp
  from zerox_download_unavailable [OF a b demo_directories d e] c show ?thesis
    by (simp add: path_exists_def)
qed

subsection \<open>The document name and the output file\<close>

text \<open>
  C5. The document name in the returned object is the base file name of the local path
  without its extension, with every alphanumeric character replaced by its lower case and
  every other character replaced by one underscore, character by character; so it holds
  only underscores and alphanumeric characters that are their own lower case. When an
  output directory is configured, the file written is that name with \<open>.md\<close>, joined to
  the output directory.
\<close>

theorem zerox_sanitized_name:
  assumes "file_path args = Some fp"
    and "prepare args ext fp s = (Inr (td, lp, images), s1)"
    and "zerox args ext s = (Inr out, s')"
  shows "file_name out
           = map (\<lambda>c. if isalnum c then lower c else CHR ''_'') (fst (splitext (basename lp)))
         \<and> list_all (\<lambda>c. c = CHR ''_'' \<or> (isalnum c \<and> lower c = c)) (file_name out)
         \<and> (\<forall>od. output_dir args = Some od \<and> od \<noteq> [] \<longrightarrow>
               (\<exists>s2 txt. map_of s2 (path_join od (file_name out @ ''.md'')) = Some (File txt)
                        \<and> cleanup_temp args td s2 = (Inr (), s')))"
proof -
  from assms(3) obtain fp' td' lp' images' s1' st s2 where
    r: "file_path args = Some fp'"
       "prepare args ext fp' s = (Inr (td', lp', images'), s1')"
       "persist args (sanitized_name lp') (aggregated_markdown st) s1' = (Inr (), s2)"
       "cleanup_temp args td' s2 = (Inr (), s')"
       "out = format_output ext (sanitized_name lp') st"
    by (elim zerox_success)
  from r(1,2) assms(1,2) have eq: "td' = td" "lp' = lp" "s1' = s1" by simp_all
  have name: "file_name out = sanitized_name lp"
    using r(5) eq by (simp add: format_output_def)
  have a: "sanitized_name lp
             = map (\<lambda>c. if isalnum c then lower c else CHR ''_'') (fst (splitext (basename lp)))"
    by (simp add: sanitized_name_def sanitize_char_def)
  have b: "list_all (\<lambda>c. c = CHR ''_'' \<or> (isalnum c \<and> lower c = c)) (sanitized_name lp)"
    using sanitize_char_range by (simp add: sanitized_name_def list_all_iff)
  have c: "\<exists>s2 txt. map_of s2 (path_join od (sanitized_name lp @ ''.md'')) = Some (File txt)
                   \<and> cleanup_temp args td s2 = (Inr (), s')"
    if od: "output_dir args = Some od" "od \<noteq> []" for od
  proof -
    from r(3) od eq have "write_text (path_join od (sanitized_name lp @ ''.md''))
        (join ''\<newline>\<newline>'' (aggregated_markdown st)) s1 = (Inr (), s2)"
      by (simp add: persist_def result_file_path_def)
    from write_text_success(1) [OF this] r(4) eq show ?thesis by blast
  qed
  from a b c show ?thesis unfolding name by blast
qed

theorem zerox_sanitized_name_witness:
  "file_path demo_args = Some ''docs/Report (Final)!.pdf''
   \<and> prepare demo_args demo_ext ''docs/Report (Final)!.pdf'' [] =
       (Inr (''/tmp/zerox-temp'', ''/tmp/zerox-temp/Report (Final)!.pdf'', demo_images),
        demo_prepared)
   \<and> zerox demo_args demo_ext [] = (Inr demo_output, demo_disk)
   \<and> file_name demo_output = ''report__final__''
   \<and> fst (splitext (basename ''/tmp/zerox-temp/Report (Final)!.pdf'')) = ''Report (Final)!''
   \<and> list_all (\<lambda>c. c = CHR ''_'' \<or> (isalnum c \<and> lower c = c)) (file_name demo_output)"
proof -
  have s: "fst (splitext (basename ''/tmp/zerox-temp/Report (Final)!.pdf'')) = ''Report (Final)!''"
    by code_simp
  have n: "file_name demo_output = ''report__final__''" by (simp add: demo_output_def)
  from zerox_sanitized_name [OF demo_paths(1) demo_prepare demo_run]
  have b: "list_all (\<lambda>c. c = CHR ''_'' \<or> (isalnum c \<and> lower c = c)) (file_name demo_output)"
    by (rule conjunct1 [OF conjunct2])
  show ?thesis
    by (intro conjI) (rule demo_paths(1) demo_prepare demo_run s n b)+
qed




subsection \<open>The chain of prior pages\<close>




subsection \<open>Page order, page count and token totals\<close>

text \<open>
  C1. The pages of a batched run are in the order in which the temporary directory
  enumerates its \<open>.png\<close> entries, which is not the page order of the rasterized
  document in either of two runs. In the first, rasterization writes the page images of
  pages 1, 2, 3 and the directory enumerates the third before the second: the returned
  pages are the texts of pages 1, 3, 2. In the second, the directory still holds a page
  image of an earlier run: its text is returned as page 1 of four.
\<close>

theorem zerox_batched_listing_order:
  "\<not> maintain_format demo_args
   \<and> convert_pdf_to_images shuffled_ext ''/tmp/zerox-temp/Report (Final)!.pdf''
        ''/tmp/zerox-temp'' demo_downloaded
       = (Inr demo_images, shuffled_prepared)
   \<and> prepare demo_args shuffled_ext ''docs/Report (Final)!.pdf'' [] =
       (Inr (''/tmp/zerox-temp'', ''/tmp/zerox-temp/Report (Final)!.pdf'', shuffled_images),
        shuffled_prepared)
   \<and> zerox demo_args shuffled_ext [] = (Inr shuffled_output, shuffled_disk)
   \<and> map (\<lambda>img. fst (process_page demo_ext img demo_model ''/tmp/zerox-temp'' 0 0 []))
        demo_images
       = [Some ''# p1.png'', Some [], Some ''# p3.png'']
   \<and> map content (pages shuffled_output) = [''# p1.png'', ''# p3.png'', []]
   \<and> zerox demo_args demo_ext stale_disk = (Inr stale_output, stale_final)
   \<and> map content (pages stale_output) = [''# old.png'', ''# p1.png'', [], ''# p3.png'']"
proof -
  have a: "\<not> maintain_format demo_args" by (simp add: demo_args_def)
  have 1: "map content (pages shuffled_output) = [''# p1.png'', ''# p3.png'', []]"
    by (simp add: shuffled_output_def)
  have 2: "map content (pages stale_output) = [''# old.png'', ''# p1.png'', [], ''# p3.png'']"
    by (simp add: stale_output_def)
  show ?thesis
    by (intro conjI)
       (rule a shuffled_convert_result shuffled_prepare shuffled_run demo_page_texts 1
             stale_run 2)+
qed

text \<open>
  C2. Rasterization produces three page images and the second page's text is empty.
  The maintain-format run returns two pages, numbered 1 and 2, since line 111 skips the
  empty result; the batched run of the same world returns three, since line 124 keeps
  every string.
\<close>

theorem zerox_sequential_page_count:
  "convert_pdf_to_images demo_ext ''/tmp/zerox-temp/Report (Final)!.pdf''
     ''/tmp/zerox-temp'' demo_downloaded
     = (Inr demo_images, demo_prepared)
   \<and> prepare demo_seq_args demo_ext ''docs/Report (Final)!.pdf'' [] =
       (Inr (''/tmp/zerox-temp'', ''/tmp/zerox-temp/Report (Final)!.pdf'', demo_images),
        demo_prepared)
   \<and> length demo_images = 3
   \<and> maintain_format demo_seq_args
   \<and> zerox demo_seq_args demo_ext [] = (Inr demo_seq_output, demo_seq_disk)
   \<and> length (pages demo_seq_output) = 2
   \<and> map page (pages demo_seq_output) = [1, 2]
   \<and> \<not> maintain_format demo_args
   \<and> zerox demo_args demo_ext [] = (Inr demo_output, demo_disk)
   \<and> length (pages demo_output) = 3"
proof -
  have 1: "length demo_images = 3" by (simp add: demo_images_def)
  have 2: "length (pages demo_seq_output) = 2" "map page (pages demo_seq_output) = [1, 2]"
    by (simp_all add: demo_seq_output_def)
  have 3: "length (pages demo_output) = 3" by (simp add: demo_output_def)
  have a: "maintain_format demo_seq_args" "\<not> maintain_format demo_args"
    by (simp_all add: demo_seq_args_def demo_args_def)
  show ?thesis
    by (intro conjI)
       (rule demo_convert_result demo_seq_prepare 1 a demo_seq_run 2 demo_run 3)+
qed


end
